theory Spec2Isabelle
  imports Complex_Main "HOL-Library.Multiset" "HOL-Library.Sublist"
begin

section \<open>Numbers and errors\<close>

text \<open>
  The notebooks compute with numpy float64 values. A value is modelled as a real number
  or as nan, and the operations as the exact ones, with nan for 0/0 and nan absorbing.
  Rounding, overflow to an infinity and underflow to zero are not modelled, so the
  theorems below say nothing about the numerical value of a score. They are about what
  does not depend on it: shapes and lengths, which calls raise, the nan of a mean over no
  rows and the nan of a vector whose entries are all zero.
\<close>

datatype fl = Fin real | NaN

text \<open>
  The exceptions the library calls of the notebooks can raise: numpy's ValueError when the
  shapes of two operands do not fit, its LinAlgError from the singular value decomposition,
  Python's TypeError when \<open>None\<close> is subscripted, pandas' KeyError when a column that is
  named does not exist. The notebooks define no exception of their own and contain no
  \<open>raise\<close>.
\<close>

datatype error = ValueError | LinAlgError | TypeError | KeyError

fun fl_add :: "fl \<Rightarrow> fl \<Rightarrow> fl" where
  "fl_add (Fin a) (Fin b) = Fin (a + b)"
| "fl_add _ _ = NaN"

fun fl_sub :: "fl \<Rightarrow> fl \<Rightarrow> fl" where
  "fl_sub (Fin a) (Fin b) = Fin (a - b)"
| "fl_sub _ _ = NaN"

fun fl_mul :: "fl \<Rightarrow> fl \<Rightarrow> fl" where
  "fl_mul (Fin a) (Fin b) = Fin (a * b)"
| "fl_mul _ _ = NaN"

fun fl_div :: "fl \<Rightarrow> fl \<Rightarrow> fl" where
  "fl_div (Fin a) (Fin b) = (if b = 0 then NaN else Fin (a / b))"
| "fl_div _ _ = NaN"

fun fl_sqrt :: "fl \<Rightarrow> fl" where
  "fl_sqrt (Fin a) = (if a < 0 then NaN else Fin (sqrt a))"
| "fl_sqrt NaN = NaN"

section \<open>Lab 2: cosine distance of mean-pooled embeddings\<close>

subsection \<open>Arrays\<close>

text \<open>
  An embedding is a rank-3 numpy array: its shape and its entries, \<open>elems a ! b ! l ! d\<close>.
  The shape is kept beside the entries because an array of shape (1, 0, D) still has
  D columns.
\<close>

record ndarray3 =
  dim0 :: nat
  dim1 :: nat
  dim2 :: nat
  elems :: "real list list list"

definition wf_ndarray3 :: "ndarray3 \<Rightarrow> bool" where
  "wf_ndarray3 a \<longleftrightarrow>
     length (elems a) = dim0 a \<and>
     (\<forall>m \<in> set (elems a). length m = dim1 a \<and> (\<forall>r \<in> set m. length r = dim2 a))"

text \<open>Python's \<open>xs[i:j]\<close>: a negative index counts from the end, both are clamped.\<close>

definition slice_index :: "nat \<Rightarrow> int \<Rightarrow> nat" where
  "slice_index n i = (if i < 0 then nat (max 0 (int n + i)) else min (nat i) n)"

definition py_slice :: "int \<Rightarrow> int \<Rightarrow> 'a list \<Rightarrow> 'a list" where
  "py_slice i j xs =
     (let a = slice_index (length xs) i; b = slice_index (length xs) j
      in take (b - a) (drop a xs))"

text \<open>\<open>a[:, 1:-1, :]\<close>\<close>

definition slice_1_m1 :: "ndarray3 \<Rightarrow> ndarray3" where
  "slice_1_m1 a =
     a\<lparr>dim1 := length (py_slice 1 (- 1) [0..<dim1 a]),
       elems := map (py_slice 1 (- 1)) (elems a)\<rparr>"

text \<open>
  \<open>a.mean(axis=1)\<close>: shape (dim0, dim2); entry (b, d) is the sum over the sequence axis
  divided by its length, nan when that length is 0. The sum and the quotient are the exact
  ones; float64 rounds them.
\<close>

definition mean_axis1 :: "ndarray3 \<Rightarrow> fl list list" where
  "mean_axis1 a =
     map (\<lambda>m. map (\<lambda>d. fl_div (Fin (sum_list (map (\<lambda>r. r ! d) m))) (Fin (real (dim1 a))))
                   [0..<dim2 a])
         (elems a)"

text \<open>\<open>ravel\<close> of the pooled (dim0, dim2) array and of an unpooled rank-3 array.\<close>

definition ravel2 :: "fl list list \<Rightarrow> fl list" where
  "ravel2 m = concat m"

definition ravel3 :: "ndarray3 \<Rightarrow> fl list" where
  "ravel3 a = map Fin (concat (concat (elems a)))"

subsection \<open>scipy.spatial.distance.cosine\<close>

text \<open>
  \<open>np.dot\<close> of two 1-D arrays: ValueError when the lengths differ, else the sum of the
  products, here the exact sum (float64 rounds it and can overflow or underflow).
\<close>

definition sum_fl :: "fl list \<Rightarrow> fl" where
  "sum_fl xs = foldr fl_add xs (Fin 0)"

definition np_dot :: "fl list \<Rightarrow> fl list \<Rightarrow> error + fl" where
  "np_dot u v =
     (if length u \<noteq> length v then Inl ValueError
      else Inr (sum_fl (map2 fl_mul u v)))"

fun np_clip :: "fl \<Rightarrow> real \<Rightarrow> real \<Rightarrow> fl" where
  "np_clip (Fin x) lo hi = Fin (min (max x lo) hi)"
| "np_clip NaN lo hi = NaN"

text \<open>
  \<open>distance.cosine(u, v)\<close> is scipy's correlation distance without centering:
  \<open>uv = np.dot(u, v)\<close>, \<open>uu = np.dot(u, u)\<close>, \<open>vv = np.dot(v, v)\<close> and
  \<open>np.clip(1.0 - uv / math.sqrt(uu * vv), 0.0, 2.0)\<close>. The clip guards against
  rounding; it passes nan through. The square root is never taken of a negative number
  here. The formula is evaluated exactly; which calls raise and where nan comes from an
  all-zero vector or from nan entries is the same in float64, the numerical value is not.
\<close>

definition distance_cosine :: "fl list \<Rightarrow> fl list \<Rightarrow> error + fl" where
  "distance_cosine u v =
     (case np_dot u v of
        Inl e \<Rightarrow> Inl e
      | Inr uv \<Rightarrow>
          (case np_dot u u of
             Inl e \<Rightarrow> Inl e
           | Inr uu \<Rightarrow>
               (case np_dot v v of
                  Inl e \<Rightarrow> Inl e
                | Inr vv \<Rightarrow>
                    Inr (np_clip (fl_sub (Fin 1) (fl_div uv (fl_sqrt (fl_mul uu vv)))) 0 2))))"

subsection \<open>The scorer\<close>

definition pooled :: "ndarray3 \<Rightarrow> fl list" where
  "pooled a = ravel2 (mean_axis1 (slice_1_m1 a))"

definition cosine_distance :: "ndarray3 \<Rightarrow> ndarray3 \<Rightarrow> bool \<Rightarrow> error + fl" where
  "cosine_distance embeddings1 embeddings2 mean_pooling =
     (if mean_pooling
      then distance_cosine (pooled embeddings1) (pooled embeddings2)
      else distance_cosine (ravel3 embeddings1) (ravel3 embeddings2))"

section \<open>Lab 3: RMSD of predicted structures against the reference\<close>

subsection \<open>Atom arrays\<close>

record atom =
  atom_name :: string
  res_id :: int
  coord :: "real \<times> real \<times> real"

text \<open>\<open>structure[structure.atom_name == 'CA']\<close>: a boolean mask keeps the file order.\<close>

definition ca_atoms :: "atom list \<Rightarrow> atom list" where
  "ca_atoms s = filter (\<lambda>a. atom_name a = ''CA'') s"

text \<open>The CA extraction and the truncation to \<open>min_len\<close> (cell 4.3).\<close>

definition truncated_ca :: "atom list \<Rightarrow> atom list \<Rightarrow> atom list \<times> atom list" where
  "truncated_ca ref_structure gen_structure =
     (let ref_ca = ca_atoms ref_structure;
          gen_ca = ca_atoms gen_structure;
          min_len = min (length ref_ca) (length gen_ca)
      in (take min_len ref_ca, take min_len gen_ca))"

subsection \<open>biotite.structure.rmsd\<close>

text \<open>
  \<open>rmsd(reference, subject) = sqrt(mean(sum((subject - reference)^2, axis=-1)))\<close>.
  The subtraction broadcasts two (n, 3) arrays: equal lengths, or one of length 1, else
  ValueError. The mean of no distances is nan.
\<close>

definition np_broadcast :: "'a list \<Rightarrow> 'a list \<Rightarrow> error + ('a \<times> 'a) list" where
  "np_broadcast xs ys =
     (if length xs = length ys then Inr (zip xs ys)
      else if length xs = 1 then Inr (zip (replicate (length ys) (hd xs)) ys)
      else if length ys = 1 then Inr (zip xs (replicate (length xs) (hd ys)))
      else Inl ValueError)"

fun sq_euclidian :: "real \<times> real \<times> real \<Rightarrow> real \<times> real \<times> real \<Rightarrow> real" where
  "sq_euclidian (x1, y1, z1) (x2, y2, z2) = (x2 - x1)\<^sup>2 + (y2 - y1)\<^sup>2 + (z2 - z1)\<^sup>2"

definition struct_rmsd :: "atom list \<Rightarrow> atom list \<Rightarrow> error + fl" where
  "struct_rmsd reference subject =
     (case np_broadcast (map coord reference) (map coord subject) of
        Inl e \<Rightarrow> Inl e
      | Inr ps \<Rightarrow>
          Inr (fl_sqrt (fl_div (Fin (sum_list (map (\<lambda>(p, q). sq_euclidian p q) ps)))
                               (Fin (real (length ps))))))"

subsection \<open>The scoring loop body\<close>

record candidate =
  prompt_id :: string
  sequence :: string
  description :: string

record 'tr structure_info = candidate +
  run_id :: string
  transform :: "'tr option"
  rmsd :: "fl option"

text \<open>
  One pass of the loop of cell 4.3 for the dictionary \<open>s\<close>. \<open>struct.superimpose\<close> is
  biotite's least-squares fit by singular value decomposition; it is a parameter here,
  returning the fitted atoms and the transformation, or the exception it raised. A failure
  carries \<open>s\<close> as it is at that moment; success gives \<open>rmsd_before\<close>, \<open>rmsd_after\<close> and
  the updated \<open>s\<close>.
\<close>

definition score_structure ::
  "(atom list \<Rightarrow> atom list \<Rightarrow> error + atom list \<times> 'tr) \<Rightarrow> atom list \<Rightarrow> atom list \<Rightarrow>
   'tr structure_info \<Rightarrow> error \<times> 'tr structure_info + fl \<times> fl \<times> 'tr structure_info" where
  "score_structure superimpose ref_structure gen_structure s =
     (case truncated_ca ref_structure gen_structure of
        (ref_ca, gen_ca) \<Rightarrow>
          (case struct_rmsd ref_ca gen_ca of
             Inl e \<Rightarrow> Inl (e, s)
           | Inr rmsd_before \<Rightarrow>
               (case superimpose ref_ca gen_ca of
                  Inl e \<Rightarrow> Inl (e, s)
                | Inr (gen_ca_fit, tr) \<Rightarrow>
                    (let s1 = s\<lparr>transform := Some tr\<rparr>
                     in case struct_rmsd ref_ca gen_ca_fit of
                          Inl e \<Rightarrow> Inl (e, s1)
                        | Inr rmsd_after \<Rightarrow>
                            Inr (rmsd_before, rmsd_after, s1\<lparr>rmsd := Some rmsd_after\<rparr>)))))"

section \<open>Sorting and selecting the top candidates\<close>

subsection \<open>The data frame operations\<close>

text \<open>
  A data frame is the list of its rows. \<open>isna\<close> holds of \<open>None\<close> and of nan.
  \<open>sort_values(by=..., ascending=True)\<close> puts the rows with a value in ascending order of
  it and the rows without one last, in their input order (\<open>na_position='last'\<close>). The
  call leaves \<open>kind\<close> at its default \<open>'quicksort'\<close>, for which pandas promises no order
  among equal values; the insertion sort used here keeps them in input order, and no
  result below depends on that choice.
\<close>

fun isna :: "fl option \<Rightarrow> bool" where
  "isna None = True"
| "isna (Some NaN) = True"
| "isna (Some (Fin _)) = False"

fun key_val :: "fl option \<Rightarrow> real" where
  "key_val (Some (Fin x)) = x"
| "key_val _ = 0"

definition sort_values :: "('r \<Rightarrow> fl option) \<Rightarrow> 'r list \<Rightarrow> 'r list" where
  "sort_values by df =
     sort_key (\<lambda>r. key_val (by r)) (filter (\<lambda>r. \<not> isna (by r)) df)
     @ filter (\<lambda>r. isna (by r)) df"

definition head :: "nat \<Rightarrow> 'r list \<Rightarrow> 'r list" where
  "head n df = take n df"

text \<open>
  The selection of both notebooks, \<open>df.sort_values(by=..., ascending=True)\<close> followed by
  \<open>df.head(k)\<close>, for any k; lab 2 takes k = 5 on \<open>distance\<close>, lab 3 takes k = 3 on
  \<open>rmsd\<close>.
\<close>

definition top_k :: "nat \<Rightarrow> ('r \<Rightarrow> fl option) \<Rightarrow> 'r list \<Rightarrow> 'r list" where
  "top_k k by df = head k (sort_values by df)"

text \<open>
  \<open>pd.DataFrame(rows)\<close> of a list of dictionaries followed by
  \<open>set_index('prompt_id')\<close>, the first two lines of cells 3.2 and 4.4. The frame of an
  empty list has no columns, and \<open>set_index\<close> raises KeyError; otherwise the frame has
  the rows in list order.
\<close>

definition indexed_frame :: "'r list \<Rightarrow> error + 'r list" where
  "indexed_frame rows = (if rows = [] then Inl KeyError else Inr rows)"

text \<open>
  The selection from the list of candidates on: the frame is built and indexed, sorted,
  and its first k rows are taken.
\<close>

definition select_top_k :: "nat \<Rightarrow> ('r \<Rightarrow> fl option) \<Rightarrow> 'r list \<Rightarrow> error + 'r list" where
  "select_top_k k by rows =
     (case indexed_frame rows of
        Inl e \<Rightarrow> Inl e
      | Inr frame \<Rightarrow> Inr (head k (sort_values by frame)))"

text \<open>Ascending order of the sort column, rows without a value last.\<close>

fun key_le :: "fl option \<Rightarrow> fl option \<Rightarrow> bool" where
  "key_le (Some (Fin x)) (Some (Fin y)) = (x \<le> y)"
| "key_le _ (Some (Fin y)) = False"
| "key_le _ _ = True"

subsection \<open>Lab 2: cells 3.1 to 3.3\<close>

record gen_sequence = candidate +
  embeddings :: "ndarray3 option"
  distance :: "fl option"
  distance_type :: "string option"

record seq_record =
  seq :: string
  seq_id :: string
  seq_description :: string

text \<open>Cell 3.1: every generated sequence is scored against the reference embedding.\<close>

fun score_sequences :: "ndarray3 \<Rightarrow> gen_sequence list \<Rightarrow> error + gen_sequence list" where
  "score_sequences ref_embeddings [] = Inr []"
| "score_sequences ref_embeddings (gen_seq # rest) =
     (case embeddings gen_seq of
        None \<Rightarrow> Inl TypeError
      | Some e \<Rightarrow>
          (case cosine_distance e ref_embeddings True of
             Inl err \<Rightarrow> Inl err
           | Inr d \<Rightarrow>
               (case score_sequences ref_embeddings rest of
                  Inl err \<Rightarrow> Inl err
                | Inr rest' \<Rightarrow>
                    Inr (gen_seq\<lparr>distance := Some d, distance_type := Some ''cosine''\<rparr>
                         # rest'))))"

text \<open>
  The notebook's variables. Cell 3.2 builds the sorted data frame from \<open>gen_sequences\<close>,
  cell 3.3 builds the records that \<open>SeqIO.write\<close> persists. How Python prints the
  distance inside the f-string is the parameter \<open>fmt\<close>. The two cells are the updates
  of the variables when the frame can be built, that is for a list with at least one
  candidate; what happens on the empty list is in \<open>select_top_k\<close>.
\<close>

record lab2_state =
  gen_sequences :: "gen_sequence list"
  df :: "gen_sequence list"
  records :: "seq_record list"

definition distance_record :: "(fl option \<Rightarrow> string) \<Rightarrow> gen_sequence \<Rightarrow> seq_record" where
  "distance_record fmt row =
     \<lparr>seq = sequence row, seq_id = prompt_id row,
      seq_description = description row @ '',distance='' @ fmt (distance row)\<rparr>"

definition cell_3_2 :: "lab2_state \<Rightarrow> lab2_state" where
  "cell_3_2 st = st\<lparr>df := sort_values distance (gen_sequences st)\<rparr>"

definition cell_3_3 :: "(fl option \<Rightarrow> string) \<Rightarrow> lab2_state \<Rightarrow> lab2_state" where
  "cell_3_3 fmt st = st\<lparr>records := map (distance_record fmt) (head 5 (df st))\<rparr>"

subsection \<open>Lab 3: cells 4.4 and 4.5\<close>

record 'tr lab3_state =
  structures :: "'tr structure_info list"
  df3 :: "'tr structure_info list"
  records3 :: "seq_record list"

definition rmsd_record :: "(fl option \<Rightarrow> string) \<Rightarrow> 'tr structure_info \<Rightarrow> seq_record" where
  "rmsd_record fmt row =
     \<lparr>seq = sequence row, seq_id = prompt_id row,
      seq_description = description row @ '',rmsd='' @ fmt (rmsd row)\<rparr>"

definition cell_4_4 :: "'tr lab3_state \<Rightarrow> 'tr lab3_state" where
  "cell_4_4 st = st\<lparr>df3 := sort_values rmsd (structures st)\<rparr>"

definition cell_4_5 :: "(fl option \<Rightarrow> string) \<Rightarrow> 'tr lab3_state \<Rightarrow> 'tr lab3_state" where
  "cell_4_5 fmt st = st\<lparr>records3 := map (rmsd_record fmt) (head 3 (df3 st))\<rparr>"

section \<open>The superposition that the specification describes\<close>

text \<open>
  \<open>struct.superimpose\<close> is biotite's; the notebook has only the call. The specification
  describes what it returns: "the optimal rigid transform (rotation + translation) that
  minimizes mean-squared distance between the truncated candidate set and the truncated
  reference set", applied to the candidate set, where a rigid superposition is a rotation
  and a translation "without scaling or reflection". The definitions of this section follow
  these words, over exact real coordinates.
\<close>

text \<open>Modelled from the spec: a point or vector of three real coordinates.\<close>

type_synonym vec3 = "real \<times> real \<times> real"

text \<open>
  Modelled from the spec: the transform that \<open>struct.superimpose\<close> returns, a rotation
  matrix given by its three rows, and a translation.
\<close>

record rigid_transform =
  rotation :: "vec3 \<times> vec3 \<times> vec3"
  translation :: vec3

text \<open>Modelled from the spec: the inner product of two vectors.\<close>

fun dot3 :: "vec3 \<Rightarrow> vec3 \<Rightarrow> real" where
  "dot3 (a, b, c) (x, y, z) = a * x + b * y + c * z"

text \<open>Modelled from the spec: the determinant of a matrix given by its rows.\<close>

fun det3 :: "vec3 \<times> vec3 \<times> vec3 \<Rightarrow> real" where
  "det3 ((a, b, c), (d, e, f), (g, h, i)) =
     a * (e * i - f * h) - b * (d * i - f * g) + c * (d * h - e * g)"

text \<open>
  Modelled from the spec: a rotation, neither scaling nor reflecting: the rows are
  orthonormal and the determinant is 1.
\<close>

fun is_rotation :: "vec3 \<times> vec3 \<times> vec3 \<Rightarrow> bool" where
  "is_rotation (r1, r2, r3) \<longleftrightarrow>
     dot3 r1 r1 = 1 \<and> dot3 r2 r2 = 1 \<and> dot3 r3 r3 = 1 \<and>
     dot3 r1 r2 = 0 \<and> dot3 r1 r3 = 0 \<and> dot3 r2 r3 = 0 \<and>
     det3 (r1, r2, r3) = 1"

text \<open>Modelled from the spec: a matrix applied to a point.\<close>

fun rotate :: "vec3 \<times> vec3 \<times> vec3 \<Rightarrow> vec3 \<Rightarrow> vec3" where
  "rotate (r1, r2, r3) p = (dot3 r1 p, dot3 r2 p, dot3 r3 p)"

text \<open>Modelled from the spec: the sum of two vectors.\<close>

fun add3 :: "vec3 \<Rightarrow> vec3 \<Rightarrow> vec3" where
  "add3 (a, b, c) (x, y, z) = (a + x, b + y, c + z)"

text \<open>
  Modelled from the spec: the transform applied to a set of atoms, rotation first, then
  translation; only the coordinates change.
\<close>

definition transform_atoms :: "rigid_transform \<Rightarrow> atom list \<Rightarrow> atom list" where
  "transform_atoms t atoms =
     map (\<lambda>a. a\<lparr>coord := add3 (rotate (rotation t) (coord a)) (translation t)\<rparr>) atoms"

text \<open>
  Modelled from the spec: the mean-squared distance between two point sets of equal
  length, point by point.
\<close>

definition mean_sq_distance :: "atom list \<Rightarrow> atom list \<Rightarrow> real" where
  "mean_sq_distance fixed mobile =
     sum_list (map (\<lambda>(p, q). sq_euclidian p q) (zip (map coord fixed) (map coord mobile)))
     / real (length fixed)"

text \<open>
  Modelled from the spec: \<open>t\<close> is an optimal rigid transform of \<open>mobile\<close> onto
  \<open>fixed\<close>: it is rigid, and no rigid transform brings \<open>mobile\<close> closer to \<open>fixed\<close>
  in mean-squared distance.
\<close>

definition minimises_msd :: "atom list \<Rightarrow> atom list \<Rightarrow> rigid_transform \<Rightarrow> bool" where
  "minimises_msd fixed mobile t \<longleftrightarrow>
     is_rotation (rotation t) \<and>
     (\<forall>t'. is_rotation (rotation t') \<longrightarrow>
        mean_sq_distance fixed (transform_atoms t mobile)
          \<le> mean_sq_distance fixed (transform_atoms t' mobile))"

text \<open>Modelled from the spec: the rigid transform that moves nothing.\<close>

definition identity_transform :: rigid_transform where
  "identity_transform = \<lparr>rotation = ((1, 0, 0), (0, 1, 0), (0, 0, 1)), translation = (0, 0, 0)\<rparr>"

section \<open>What reaches the distance\<close>

text \<open>The vector the scorer hands to \<open>distance.cosine\<close> for one embedding.\<close>

definition flattened :: "bool \<Rightarrow> ndarray3 \<Rightarrow> fl list" where
  "flattened mean_pooling a = (if mean_pooling then pooled a else ravel3 a)"

text \<open>
  Every entry of the embedding that reaches that vector is 0: with mean pooling the
  entries of the rows \<open>1:-1\<close>, without it all entries.
\<close>

definition zero_input :: "bool \<Rightarrow> ndarray3 \<Rightarrow> bool" where
  "zero_input mean_pooling a \<longleftrightarrow>
     (\<forall>m \<in> set (elems a).
        \<forall>r \<in> set (if mean_pooling then py_slice 1 (- 1) m else m). \<forall>x \<in> set r. x = 0)"

section \<open>Concrete inputs\<close>

text \<open>
  Small inputs on which the theorems below are instantiated: embeddings of shape
  (1, 3, 2), (1, 4, 2), (1, 3, 1) and (1, 2, 2), one whose inner rows are zero, atoms of a
  reference and of a predicted structure, scored and unscored rows, and a triangle of CA
  atoms with its copy moved by 2 along the third axis.
\<close>

definition emb_3x2 :: ndarray3 where
  "emb_3x2 = \<lparr>dim0 = 1, dim1 = 3, dim2 = 2, elems = [[[9, 9], [1, 0], [9, 9]]]\<rparr>"

definition emb_4x2 :: ndarray3 where
  "emb_4x2 = \<lparr>dim0 = 1, dim1 = 4, dim2 = 2, elems = [[[7, 7], [0, 2], [0, 0], [7, 7]]]\<rparr>"

definition emb_3x1 :: ndarray3 where
  "emb_3x1 = \<lparr>dim0 = 1, dim1 = 3, dim2 = 1, elems = [[[5], [1], [5]]]\<rparr>"

definition emb_2x2 :: ndarray3 where
  "emb_2x2 = \<lparr>dim0 = 1, dim1 = 2, dim2 = 2, elems = [[[1, 2], [3, 4]]]\<rparr>"

definition emb_zero :: ndarray3 where
  "emb_zero = \<lparr>dim0 = 1, dim1 = 3, dim2 = 2, elems = [[[1, 1], [0, 0], [1, 1]]]\<rparr>"

definition atom_n1 :: atom where
  "atom_n1 = \<lparr>atom_name = ''N'', res_id = 1, coord = (0, 0, 0)\<rparr>"

definition atom_ca1 :: atom where
  "atom_ca1 = \<lparr>atom_name = ''CA'', res_id = 1, coord = (1, 0, 0)\<rparr>"

definition atom_ca2 :: atom where
  "atom_ca2 = \<lparr>atom_name = ''CA'', res_id = 2, coord = (2, 0, 0)\<rparr>"

definition atom_ca3 :: atom where
  "atom_ca3 = \<lparr>atom_name = ''CA'', res_id = 3, coord = (3, 0, 0)\<rparr>"

definition info_p1 :: "unit structure_info" where
  "info_p1 = \<lparr>prompt_id = ''p1'', sequence = ''M'', description = ''p1 first'',
              run_id = ''r1'', transform = None, rmsd = None\<rparr>"

definition row_a :: gen_sequence where
  "row_a = \<lparr>prompt_id = ''a'', sequence = ''MKV'', description = ''a x'',
            embeddings = None, distance = Some (Fin (3 / 10)), distance_type = Some ''cosine''\<rparr>"

definition row_b :: gen_sequence where
  "row_b = \<lparr>prompt_id = ''b'', sequence = ''MKL'', description = ''b y'',
            embeddings = None, distance = Some (Fin (1 / 10)), distance_type = Some ''cosine''\<rparr>"

definition row_c :: gen_sequence where
  "row_c = \<lparr>prompt_id = ''c'', sequence = ''MKA'', description = ''c z'',
            embeddings = None, distance = Some (Fin (2 / 10)), distance_type = Some ''cosine''\<rparr>"

definition row_unscored :: gen_sequence where
  "row_unscored = \<lparr>prompt_id = ''u'', sequence = ''MKT'', description = ''u w'',
                   embeddings = None, distance = None, distance_type = None\<rparr>"

definition fmt_ab :: "fl option \<Rightarrow> string" where
  "fmt_ab d = (if d = Some (Fin (1 / 10)) then ''0.1'' else ''0.3'')"

definition tri_ref :: "atom list" where
  "tri_ref = [\<lparr>atom_name = ''CA'', res_id = 1, coord = (0, 0, 0)\<rparr>,
              \<lparr>atom_name = ''CA'', res_id = 2, coord = (1, 0, 0)\<rparr>,
              \<lparr>atom_name = ''CA'', res_id = 3, coord = (0, 1, 0)\<rparr>]"

definition tri_gen :: "atom list" where
  "tri_gen = [\<lparr>atom_name = ''CA'', res_id = 1, coord = (0, 0, 2)\<rparr>,
              \<lparr>atom_name = ''CA'', res_id = 2, coord = (1, 0, 2)\<rparr>,
              \<lparr>atom_name = ''CA'', res_id = 3, coord = (0, 1, 2)\<rparr>]"

definition shift_down :: rigid_transform where
  "shift_down = \<lparr>rotation = ((1, 0, 0), (0, 1, 0), (0, 0, 1)), translation = (0, 0, - 2)\<rparr>"

definition info_q1 :: "rigid_transform structure_info" where
  "info_q1 = \<lparr>prompt_id = ''q1'', sequence = ''MKV'', description = ''q1 first'',
              run_id = ''r1'', transform = None, rmsd = None\<rparr>"

section \<open>Arithmetic of the model\<close>

subsection \<open>nan absorbs\<close>

lemma fl_add_NaN_right [simp]: "fl_add x NaN = NaN" by (cases x) simp_all

lemma fl_sub_NaN_right [simp]: "fl_sub x NaN = NaN" by (cases x) simp_all

lemma fl_mul_NaN_right [simp]: "fl_mul x NaN = NaN" by (cases x) simp_all

lemma fl_div_NaN_right [simp]: "fl_div x NaN = NaN" by (cases x) simp_all

lemma sum_fl_Cons [simp]: "sum_fl (x # xs) = fl_add x (sum_fl xs)"
  by (simp add: sum_fl_def)

lemma sum_fl_NaN: "NaN \<in> set xs \<Longrightarrow> sum_fl xs = NaN"
  by (induction xs) auto

section \<open>The library calls\<close>

subsection \<open>np.dot and distance.cosine\<close>

lemma np_dot_total: "length u = length v \<Longrightarrow> \<exists>s. np_dot u v = Inr s"
  by (simp add: np_dot_def)

lemma np_dot_self_NaN:
  assumes "NaN \<in> set u"
  shows "np_dot u u = Inr NaN"
proof -
  have "map2 fl_mul u u = map (\<lambda>x. fl_mul x x) u"
    by (simp add: zip_same_conv_map)
  moreover have "fl_mul NaN NaN \<in> set (map (\<lambda>x. fl_mul x x) u)"
    using assms by (simp only: set_map) (rule imageI)
  ultimately have "NaN \<in> set (map2 fl_mul u u)" by simp
  then show ?thesis by (simp add: np_dot_def sum_fl_NaN)
qed

lemma distance_cosine_mismatch:
  "length u \<noteq> length v \<Longrightarrow> distance_cosine u v = Inl ValueError"
  by (simp add: distance_cosine_def np_dot_def)

lemma distance_cosine_never_other_error:
  "distance_cosine u v = Inl e \<Longrightarrow> length u \<noteq> length v \<and> e = ValueError"
  by (auto simp: distance_cosine_def np_dot_def split: if_splits)

lemma distance_cosine_NaN:
  assumes "length u = length v" "NaN \<in> set u \<or> NaN \<in> set v"
  shows "distance_cosine u v = Inr NaN"
proof -
  obtain uv where uv: "np_dot u v = Inr uv"
    using np_dot_total [OF assms(1)] by blast
  obtain uu where uu: "np_dot u u = Inr uu"
    using np_dot_total [of u u] by blast
  obtain vv where vv: "np_dot v v = Inr vv"
    using np_dot_total [of v v] by blast
  have "fl_mul uu vv = NaN"
    using assms(2) uu vv np_dot_self_NaN [of u] np_dot_self_NaN [of v] by auto
  then show ?thesis
    by (simp add: distance_cosine_def uv uu vv)
qed

lemma distance_cosine_empty: "distance_cosine [] [] = Inr NaN"
  by (simp add: distance_cosine_def np_dot_def sum_fl_def)

lemma distance_cosine_all_NaN:
  assumes "length v = n"
  shows "distance_cosine (replicate n NaN) v = Inr NaN"
    and "distance_cosine v (replicate n NaN) = Inr NaN"
proof -
  show "distance_cosine (replicate n NaN) v = Inr NaN"
  proof (cases n)
    case 0
    with assms show ?thesis by (simp add: distance_cosine_empty)
  next
    case (Suc k)
    then show ?thesis using assms by (intro distance_cosine_NaN) simp_all
  qed
  show "distance_cosine v (replicate n NaN) = Inr NaN"
  proof (cases n)
    case 0
    with assms show ?thesis by (simp add: distance_cosine_empty)
  next
    case (Suc k)
    then show ?thesis using assms by (intro distance_cosine_NaN) simp_all
  qed
qed

lemma np_dot_self_zero: "\<forall>x \<in> set u. x = Fin 0 \<Longrightarrow> np_dot u u = Inr (Fin 0)"
  by (induction u) (simp_all add: np_dot_def sum_fl_def)

lemma fl_div_sqrt_zero_left: "fl_div x (fl_sqrt (fl_mul (Fin 0) y)) = NaN"
  by (cases x; cases y) simp_all

lemma fl_div_sqrt_zero_right: "fl_div x (fl_sqrt (fl_mul y (Fin 0))) = NaN"
  by (cases x; cases y) simp_all

lemma distance_cosine_zero_vector:
  assumes "length u = length v"
    and "(\<forall>x \<in> set u. x = Fin 0 \<or> x = NaN) \<or> (\<forall>x \<in> set v. x = Fin 0 \<or> x = NaN)"
  shows "distance_cosine u v = Inr NaN"
proof (cases "NaN \<in> set u \<or> NaN \<in> set v")
  case True
  with assms(1) show ?thesis by (rule distance_cosine_NaN)
next
  case False
  obtain uv where uv: "np_dot u v = Inr uv"
    using np_dot_total [OF assms(1)] by blast
  obtain uu where uu: "np_dot u u = Inr uu"
    using np_dot_total [of u u] by blast
  obtain vv where vv: "np_dot v v = Inr vv"
    using np_dot_total [of v v] by blast
  from assms(2) False have "(\<forall>x \<in> set u. x = Fin 0) \<or> (\<forall>x \<in> set v. x = Fin 0)"
    by metis
  then have "uu = Fin 0 \<or> vv = Fin 0"
    using uu vv np_dot_self_zero [of u] np_dot_self_zero [of v] by auto
  then have "fl_div uv (fl_sqrt (fl_mul uu vv)) = NaN"
    by (auto simp: fl_div_sqrt_zero_left fl_div_sqrt_zero_right)
  then show ?thesis
    by (simp add: distance_cosine_def uv uu vv)
qed

subsection \<open>Slicing and pooling\<close>

lemma py_slice_1_m1: "py_slice 1 (- 1) xs = butlast (tl xs)"
  by (cases xs) (simp_all add: py_slice_def slice_index_def butlast_conv_take drop_Suc Let_def)


lemma pooled_unfold:
  "pooled a =
     concat (map (\<lambda>m. map (\<lambda>d. fl_div (Fin (sum_list (map (\<lambda>r. r ! d) (butlast (tl m)))))
                                      (Fin (real (dim1 a - 2))))
                         [0..<dim2 a])
                 (elems a))"
  unfolding pooled_def ravel2_def mean_axis1_def slice_1_m1_def py_slice_1_m1
  by (simp add: comp_def numeral_2_eq_2 del: fl_div.simps)

lemma concat_replicate_replicate:
  "concat (replicate n (replicate k x)) = replicate (n * k) x"
  by (induction n) (simp_all add: replicate_add)

lemma length_pooled: "length (pooled a) = length (elems a) * dim2 a"
  by (simp add: pooled_unfold length_concat comp_def sum_list_triv)

lemma pooled_short:
  assumes "dim1 a \<le> 2"
  shows "pooled a = replicate (length (elems a) * dim2 a) NaN"
proof -
  have "dim1 a - 2 = 0" using assms by simp
  then show ?thesis
    by (simp add: pooled_unfold map_replicate_const concat_replicate_replicate)
qed

lemma cosine_distance_flattened:
  "cosine_distance e1 e2 mp = distance_cosine (flattened mp e1) (flattened mp e2)"
  by (simp add: cosine_distance_def flattened_def)

lemma flattened_zero_input:
  assumes "wf_ndarray3 a" "zero_input mp a"
  shows "\<forall>x \<in> set (flattened mp a). x = Fin 0 \<or> x = NaN"
proof (cases mp)
  case False
  with assms(2) show ?thesis
    by (auto simp: flattened_def ravel3_def zero_input_def)
next
  case True
  have z: "sum_list (map (\<lambda>r. r ! d) (butlast (tl m))) = 0"
    if "m \<in> set (elems a)" "d < dim2 a" for m d
  proof -
    have "r ! d = 0" if "r \<in> set (butlast (tl m))" for r
    proof -
      from that have "r \<in> set (tl m)" by (rule in_set_butlastD)
      then have "r \<in> set m" by (cases m) simp_all
      with \<open>m \<in> set (elems a)\<close> assms(1) have "length r = dim2 a"
        by (simp add: wf_ndarray3_def)
      with \<open>d < dim2 a\<close> have "r ! d \<in> set r" by simp
      moreover from assms(2) True \<open>m \<in> set (elems a)\<close> that
      have "\<forall>x \<in> set r. x = 0"
        by (simp add: zero_input_def py_slice_1_m1)
      ultimately show ?thesis by blast
    qed
    then show ?thesis by (simp add: sum_list_0 cong: map_cong)
  qed
  show ?thesis
  proof
    fix x assume "x \<in> set (flattened mp a)"
    with True have "x \<in> set (pooled a)" by (simp add: flattened_def)
    then have "\<exists>m \<in> set (elems a). \<exists>d \<in> set [0..<dim2 a].
        x = fl_div (Fin (sum_list (map (\<lambda>r. r ! d) (butlast (tl m)))))
                   (Fin (real (dim1 a - 2)))"
      unfolding pooled_unfold by (auto simp del: fl_div.simps)
    then obtain m d where md: "m \<in> set (elems a)" "d < dim2 a"
      and x: "x = fl_div (Fin (sum_list (map (\<lambda>r. r ! d) (butlast (tl m)))))
                        (Fin (real (dim1 a - 2)))"
      by auto
    from z [OF md] x show "x = Fin 0 \<or> x = NaN" by simp
  qed
qed

subsection \<open>rmsd and the truncation\<close>

lemma struct_rmsd_empty: "struct_rmsd [] [] = Inr NaN"
  by (simp add: struct_rmsd_def np_broadcast_def)

lemma truncated_ca_lengths:
  assumes "truncated_ca ref_structure gen_structure = (ref_ca, gen_ca)"
  shows "length ref_ca = min (length (ca_atoms ref_structure)) (length (ca_atoms gen_structure))"
    and "length gen_ca = length ref_ca"
  using assms by (auto simp: truncated_ca_def Let_def)

lemma truncated_ca_empty:
  "ca_atoms ref_structure = [] \<or> ca_atoms gen_structure = [] \<Longrightarrow>
   truncated_ca ref_structure gen_structure = ([], [])"
  by (auto simp: truncated_ca_def Let_def)

lemma sq_euclidian_nonneg: "0 \<le> sq_euclidian p q"
  by (cases p; cases q) simp

lemma mean_sq_distance_nonneg: "0 \<le> mean_sq_distance fixed mobile"
proof -
  have "0 \<le> sum_list (map (\<lambda>(p, q). sq_euclidian p q) ps)" for ps
    by (rule sum_list_nonneg) (auto simp: sq_euclidian_nonneg)
  then show ?thesis by (simp add: mean_sq_distance_def)
qed

lemma transform_identity: "transform_atoms identity_transform atoms = atoms"
proof -
  have "add3 (rotate ((1, 0, 0), (0, 1, 0), (0, 0, 1)) p) (0, 0, 0) = p" for p :: vec3
    by (cases p) simp
  then have "transform_atoms identity_transform atoms = map (\<lambda>a. a\<lparr>coord := coord a\<rparr>) atoms"
    by (simp only: transform_atoms_def identity_transform_def rigid_transform.simps)
  then show ?thesis by simp
qed

lemma is_rotation_identity: "is_rotation (rotation identity_transform)"
  by (simp add: identity_transform_def)

lemma length_transform_atoms [simp]: "length (transform_atoms t atoms) = length atoms"
  by (simp add: transform_atoms_def)

lemma struct_rmsd_equal_length:
  assumes "length reference = length subject" "reference \<noteq> []"
  shows "struct_rmsd reference subject = Inr (Fin (sqrt (mean_sq_distance reference subject)))"
proof -
  have "0 \<le> mean_sq_distance reference subject" by (rule mean_sq_distance_nonneg)
  moreover from assms have "subject \<noteq> []" by auto
  ultimately show ?thesis
    using assms
    by (simp add: struct_rmsd_def np_broadcast_def mean_sq_distance_def not_less)
qed

lemma minimises_msd_le_untransformed:
  assumes "minimises_msd fixed mobile t"
  shows "mean_sq_distance fixed (transform_atoms t mobile) \<le> mean_sq_distance fixed mobile"
  using assms is_rotation_identity transform_identity [of mobile]
  by (metis minimises_msd_def)

subsection \<open>Sorting a data frame\<close>

lemma key_le_isna: "isna b \<Longrightarrow> key_le a b"
  by (cases "(a, b)" rule: key_le.cases) simp_all

lemma key_le_scored: "\<not> isna a \<Longrightarrow> \<not> isna b \<Longrightarrow> key_le a b = (key_val a \<le> key_val b)"
  by (cases "(a, b)" rule: key_le.cases) simp_all

lemma sorted_wrt_sort_values:
  "sorted_wrt (\<lambda>a b. key_le (by a) (by b)) (sort_values by frame)"
proof -
  let ?scored = "filter (\<lambda>r. \<not> isna (by r)) frame"
  have "sorted (map (\<lambda>r. key_val (by r)) (sort_key (\<lambda>r. key_val (by r)) ?scored))"
    by (rule sorted_sort_key)
  then have "sorted_wrt (\<lambda>a b. key_val (by a) \<le> key_val (by b))
               (sort_key (\<lambda>r. key_val (by r)) ?scored)"
    by (simp only: sorted_map)
  then have "sorted_wrt (\<lambda>a b. key_le (by a) (by b)) (sort_key (\<lambda>r. key_val (by r)) ?scored)"
    by (rule sorted_wrt_mono_rel [rotated]) (simp add: key_le_scored)
  moreover have "sorted_wrt (\<lambda>a b. key_le (by a) (by b)) (filter (\<lambda>r. isna (by r)) frame)"
    by (rule sorted_wrt_mono_rel [of _ "\<lambda>a b. True"]) (simp_all add: key_le_isna)
  ultimately show ?thesis
    by (simp add: sort_values_def sorted_wrt_append key_le_isna)
qed

lemma mset_sort_values: "mset (sort_values by frame) = mset frame"
  by (simp add: sort_values_def)

lemma length_sort_values: "length (sort_values by frame) = length frame"
  using mset_sort_values [of "by" frame] by (metis size_mset)

lemma sort_values_all_scored:
  "\<forall>r \<in> set frame. \<not> isna (by r) \<Longrightarrow> sort_values by frame = sort_key (\<lambda>r. key_val (by r)) frame"
  by (simp add: sort_values_def)

lemma top_k_split:
  "top_k k by frame =
     take k (sort_key (\<lambda>r. key_val (by r)) (filter (\<lambda>r. \<not> isna (by r)) frame))
     @ take (k - length (filter (\<lambda>r. \<not> isna (by r)) frame)) (filter (\<lambda>r. isna (by r)) frame)"
  by (simp add: top_k_def head_def sort_values_def)

lemma filter_take_none:
  assumes "\<forall>x \<in> set xs. \<not> P x"
  shows "filter P (take n xs) = []"
proof -
  have "\<forall>x \<in> set (take n xs). \<not> P x"
    using assms by (meson in_set_takeD)
  then show ?thesis by (simp only: filter_empty_conv) 
qed

lemma filter_take_all:
  assumes "\<forall>x \<in> set xs. P x"
  shows "filter P (take n xs) = take n xs"
proof -
  have "\<forall>x \<in> set (take n xs). P x"
    using assms by (meson in_set_takeD)
  then show ?thesis by (simp only: filter_True)
qed

lemma filter_isna_top_k:
  "filter (\<lambda>r. isna (by r)) (top_k k by frame) =
     take (k - length (filter (\<lambda>r. \<not> isna (by r)) frame)) (filter (\<lambda>r. isna (by r)) frame)"
proof -
  let ?S = "sort_key (\<lambda>r. key_val (by r)) (filter (\<lambda>r. \<not> isna (by r)) frame)"
  let ?U = "filter (\<lambda>r. isna (by r)) frame"
  have s: "filter (\<lambda>r. isna (by r)) (take k ?S) = []"
    by (rule filter_take_none) simp
  have u: "filter (\<lambda>r. isna (by r)) (take (k - length (filter (\<lambda>r. \<not> isna (by r)) frame)) ?U)
      = take (k - length (filter (\<lambda>r. \<not> isna (by r)) frame)) ?U"
    by (rule filter_take_all) simp
  show ?thesis
    unfolding top_k_split filter_append s u by simp
qed

lemma top_k_sorted_prefix:
  "top_k k by frame = take k (sort_values by frame) \<and>
   sorted_wrt (\<lambda>a b. key_le (by a) (by b)) (take k (sort_values by frame)) \<and>
   length (take k (sort_values by frame)) = min k (length frame)"
  by (simp add: top_k_def head_def sorted_wrt_take sorted_wrt_sort_values length_sort_values
      min.commute)

lemma sorted_scored_prefix:
  assumes "\<forall>r \<in> set frame. \<not> isna (by r)"
  shows "sorted (map (\<lambda>r. key_val (by r)) (take k (sort_values by frame)))"
proof -
  from assms have "sort_values by frame = sort_key (\<lambda>r. key_val (by r)) frame"
    by (rule sort_values_all_scored)
  then have "sorted (map (\<lambda>r. key_val (by r)) (sort_values by frame))"
    by simp
  then show ?thesis
    by (simp add: take_map [symmetric] sorted_wrt_take)
qed

subsection \<open>The concrete inputs evaluated\<close>

lemma wf_examples:
  "wf_ndarray3 emb_3x2" "wf_ndarray3 emb_4x2" "wf_ndarray3 emb_3x1" "wf_ndarray3 emb_2x2"
  "wf_ndarray3 emb_zero"
  by (simp_all add: wf_ndarray3_def emb_3x2_def emb_4x2_def emb_3x1_def emb_2x2_def emb_zero_def)

lemma pooled_emb_3x2: "pooled emb_3x2 = [Fin 1, Fin 0]"
  by (simp add: emb_3x2_def pooled_def ravel2_def mean_axis1_def slice_1_m1_def
      py_slice_def slice_index_def Let_def upt_rec)

lemma pooled_emb_4x2: "pooled emb_4x2 = [Fin 0, Fin 1]"
  by (simp add: emb_4x2_def pooled_def ravel2_def mean_axis1_def slice_1_m1_def
      py_slice_def slice_index_def Let_def upt_rec)

lemma pooled_emb_3x1: "pooled emb_3x1 = [Fin 1]"
  by (simp add: emb_3x1_def pooled_def ravel2_def mean_axis1_def slice_1_m1_def
      py_slice_def slice_index_def Let_def upt_rec)

lemma pooled_emb_zero: "pooled emb_zero = [Fin 0, Fin 0]"
  by (simp add: emb_zero_def pooled_def ravel2_def mean_axis1_def slice_1_m1_def
      py_slice_def slice_index_def Let_def upt_rec)

lemma np_dot_unit_vectors:
  "np_dot [Fin 1, Fin 0] [Fin 1, Fin 0] = Inr (Fin 1)"
  "np_dot [Fin 0, Fin 1] [Fin 0, Fin 1] = Inr (Fin 1)"
  "np_dot [Fin 0, Fin 0] [Fin 0, Fin 0] = Inr (Fin 0)"
  by (simp_all add: np_dot_def sum_fl_def)

lemma sort_values_rows:
  "sort_values distance [row_a, row_b, row_c] = [row_b, row_c, row_a]"
  "sort_values distance [row_unscored, row_b] = [row_b, row_unscored]"
  "sort_values distance [row_a, row_b] = [row_b, row_a]"
  by (simp_all add: sort_values_def row_a_def row_b_def row_c_def row_unscored_def)

lemma isna_rows:
  "\<not> isna (distance row_a)" "\<not> isna (distance row_b)" "\<not> isna (distance row_c)"
  "isna (distance row_unscored)"
  by (simp_all add: row_a_def row_b_def row_c_def row_unscored_def)

lemma zero_input_emb_zero: "zero_input True emb_zero"
  by (simp add: zero_input_def emb_zero_def py_slice_def slice_index_def Let_def)

lemma transform_tri_gen: "transform_atoms shift_down tri_gen = tri_ref"
  by (simp add: transform_atoms_def shift_down_def tri_gen_def tri_ref_def)

lemma truncated_tri: "truncated_ca tri_ref tri_gen = (tri_ref, tri_gen)"
  by (simp add: truncated_ca_def ca_atoms_def tri_ref_def tri_gen_def Let_def)

lemma minimises_shift_down: "minimises_msd tri_ref tri_gen shift_down"
proof -
  have "mean_sq_distance tri_ref tri_ref = 0"
    by (simp add: mean_sq_distance_def tri_ref_def)
  then show ?thesis
    by (simp add: minimises_msd_def transform_tri_gen mean_sq_distance_nonneg)
       (simp add: shift_down_def)
qed

lemma rmsd_tri:
  "struct_rmsd tri_ref tri_gen = Inr (Fin 2)"
  "struct_rmsd tri_ref tri_ref = Inr (Fin 0)"
  by (simp_all add: struct_rmsd_def np_broadcast_def tri_ref_def tri_gen_def)

section \<open>The embedding distance scorer\<close>




text \<open>
  C3 (as amended). The scorer fails exactly when the two flattened vectors differ in
  length, and then with numpy's ValueError. A vector of zero magnitude does not make it
  fail: whenever the lengths are equal it returns a score without error, and the score is
  nan when the entries that reach one of the vectors are all zero.
\<close>

theorem cosine_distance_failure_cases:
  "((\<exists>err. cosine_distance e1 e2 mp = Inl err) \<longleftrightarrow>
      length (flattened mp e1) \<noteq> length (flattened mp e2)) \<and>
   (length (flattened mp e1) \<noteq> length (flattened mp e2) \<longrightarrow>
      cosine_distance e1 e2 mp = Inl ValueError) \<and>
   (length (flattened mp e1) = length (flattened mp e2) \<longrightarrow>
      (\<exists>s. cosine_distance e1 e2 mp = Inr s)) \<and>
   (wf_ndarray3 e1 \<and> wf_ndarray3 e2 \<and>
    length (flattened mp e1) = length (flattened mp e2) \<and>
    (zero_input mp e1 \<or> zero_input mp e2) \<longrightarrow>
      cosine_distance e1 e2 mp = Inr NaN)"
proof (intro conjI impI)
  show iff: "(\<exists>err. cosine_distance e1 e2 mp = Inl err) \<longleftrightarrow>
      length (flattened mp e1) \<noteq> length (flattened mp e2)"
    using distance_cosine_never_other_error distance_cosine_mismatch
    by (fastforce simp: cosine_distance_flattened)
  {
    assume "length (flattened mp e1) = length (flattened mp e2)"
    with iff have "\<not> (\<exists>err. cosine_distance e1 e2 mp = Inl err)" by simp
    then show "\<exists>s. cosine_distance e1 e2 mp = Inr s"
      by (cases "cosine_distance e1 e2 mp") simp_all
  }
next
  assume "length (flattened mp e1) \<noteq> length (flattened mp e2)"
  then show "cosine_distance e1 e2 mp = Inl ValueError"
    by (simp add: cosine_distance_flattened distance_cosine_mismatch)
next
  assume a: "wf_ndarray3 e1 \<and> wf_ndarray3 e2 \<and>
    length (flattened mp e1) = length (flattened mp e2) \<and>
    (zero_input mp e1 \<or> zero_input mp e2)"
  then have "(\<forall>x \<in> set (flattened mp e1). x = Fin 0 \<or> x = NaN) \<or>
      (\<forall>x \<in> set (flattened mp e2). x = Fin 0 \<or> x = NaN)"
    using flattened_zero_input [of e1 mp] flattened_zero_input [of e2 mp] by blast
  with a show "cosine_distance e1 e2 mp = Inr NaN"
    by (simp add: cosine_distance_flattened distance_cosine_zero_vector)
qed

text \<open>
  The cases of the theorem on concrete embeddings: a regular pair, a pair whose hidden
  dimensions differ, and a pair with a zero pooled vector.
\<close>

theorem cosine_distance_failure_cases_witness:
  "length (flattened True emb_3x2) = length (flattened True emb_4x2) \<and>
   (\<exists>s. cosine_distance emb_3x2 emb_4x2 True = Inr s) \<and>
   length (flattened True emb_3x2) \<noteq> length (flattened True emb_3x1) \<and>
   cosine_distance emb_3x2 emb_3x1 True = Inl ValueError \<and>
   wf_ndarray3 emb_zero \<and> wf_ndarray3 emb_4x2 \<and> zero_input True emb_zero \<and>
   length (flattened True emb_zero) = length (flattened True emb_4x2) \<and>
   cosine_distance emb_zero emb_4x2 True = Inr NaN"
proof -
  have f: "flattened True emb_3x2 = [Fin 1, Fin 0]" "flattened True emb_4x2 = [Fin 0, Fin 1]"
    "flattened True emb_3x1 = [Fin 1]" "flattened True emb_zero = [Fin 0, Fin 0]"
    by (simp_all add: flattened_def pooled_emb_3x2 pooled_emb_4x2 pooled_emb_3x1 pooled_emb_zero)
  have l: "length (flattened True emb_3x2) = length (flattened True emb_4x2)"
    "length (flattened True emb_3x2) \<noteq> length (flattened True emb_3x1)"
    "length (flattened True emb_zero) = length (flattened True emb_4x2)"
    by (simp_all add: f)
  have a: "\<exists>s. cosine_distance emb_3x2 emb_4x2 True = Inr s"
    using cosine_distance_failure_cases [of emb_3x2 emb_4x2 True] l(1) by blast
  have b: "cosine_distance emb_3x2 emb_3x1 True = Inl ValueError"
    using cosine_distance_failure_cases [of emb_3x2 emb_3x1 True] l(2) by blast
  have c: "cosine_distance emb_zero emb_4x2 True = Inr NaN"
    using cosine_distance_failure_cases [of emb_zero emb_4x2 True] l(3) wf_examples(5,2)
      zero_input_emb_zero by blast
  show ?thesis
    using l a b c wf_examples(5,2) zero_input_emb_zero by blast
qed

text \<open>
  The claim that a zero-magnitude vector is rejected fails: the pooled vector of this
  embedding has squared magnitude 0, and the scorer returns nan without an error.
\<close>

theorem zero_magnitude_raises_no_error:
  "np_dot (flattened True emb_zero) (flattened True emb_zero) = Inr (Fin 0) \<and>
   cosine_distance emb_zero emb_zero True = Inr NaN"
proof -
  have "distance_cosine [Fin 0, Fin 0] [Fin 0, Fin 0] = Inr NaN"
    by (simp add: distance_cosine_def np_dot_def sum_fl_def)
  then show ?thesis
    by (simp add: cosine_distance_def flattened_def pooled_emb_zero np_dot_unit_vectors)
qed

section \<open>The structural RMSD scorer\<close>

text \<open>
  C4. The scorer takes the atoms named CA of each structure in file order and truncates
  both selections to the shorter length, keeping the prefix of each; these two
  equal-length prefixes are what \<open>struct.rmsd\<close> and \<open>struct.superimpose\<close> receive.
\<close>

theorem truncated_ca_equal_prefixes:
  assumes "truncated_ca ref_structure gen_structure = (ref_ca, gen_ca)"
  shows "ca_atoms ref_structure = filter (\<lambda>a. atom_name a = ''CA'') ref_structure \<and>
         ca_atoms gen_structure = filter (\<lambda>a. atom_name a = ''CA'') gen_structure \<and>
         subseq (ca_atoms ref_structure) ref_structure \<and>
         subseq (ca_atoms gen_structure) gen_structure \<and>
         ref_ca = take (min (length (ca_atoms ref_structure)) (length (ca_atoms gen_structure)))
                       (ca_atoms ref_structure) \<and>
         gen_ca = take (min (length (ca_atoms ref_structure)) (length (ca_atoms gen_structure)))
                       (ca_atoms gen_structure) \<and>
         prefix ref_ca (ca_atoms ref_structure) \<and>
         prefix gen_ca (ca_atoms gen_structure) \<and>
         length ref_ca = min (length (ca_atoms ref_structure)) (length (ca_atoms gen_structure)) \<and>
         length gen_ca = length ref_ca \<and>
         score_structure superimpose ref_structure gen_structure s =
           (case struct_rmsd ref_ca gen_ca of
              Inl e \<Rightarrow> Inl (e, s)
            | Inr rmsd_before \<Rightarrow>
                (case superimpose ref_ca gen_ca of
                   Inl e \<Rightarrow> Inl (e, s)
                 | Inr (gen_ca_fit, tr) \<Rightarrow>
                     (case struct_rmsd ref_ca gen_ca_fit of
                        Inl e \<Rightarrow> Inl (e, s\<lparr>transform := Some tr\<rparr>)
                      | Inr rmsd_after \<Rightarrow>
                          Inr (rmsd_before, rmsd_after,
                               s\<lparr>transform := Some tr, rmsd := Some rmsd_after\<rparr>))))"
proof -
  have r: "ref_ca = take (min (length (ca_atoms ref_structure)) (length (ca_atoms gen_structure)))
                       (ca_atoms ref_structure)"
    and g: "gen_ca = take (min (length (ca_atoms ref_structure)) (length (ca_atoms gen_structure)))
                       (ca_atoms gen_structure)"
    using assms by (auto simp: truncated_ca_def Let_def)
  have pr: "prefix ref_ca (ca_atoms ref_structure)" and pg: "prefix gen_ca (ca_atoms gen_structure)"
    unfolding r g by (rule take_is_prefix)+
  have sr: "subseq (ca_atoms ref_structure) ref_structure"
    and sg: "subseq (ca_atoms gen_structure) gen_structure"
    by (simp_all add: ca_atoms_def)
  have sc: "score_structure superimpose ref_structure gen_structure s =
           (case struct_rmsd ref_ca gen_ca of
              Inl e \<Rightarrow> Inl (e, s)
            | Inr rmsd_before \<Rightarrow>
                (case superimpose ref_ca gen_ca of
                   Inl e \<Rightarrow> Inl (e, s)
                 | Inr (gen_ca_fit, tr) \<Rightarrow>
                     (case struct_rmsd ref_ca gen_ca_fit of
                        Inl e \<Rightarrow> Inl (e, s\<lparr>transform := Some tr\<rparr>)
                      | Inr rmsd_after \<Rightarrow>
                          Inr (rmsd_before, rmsd_after,
                               s\<lparr>transform := Some tr, rmsd := Some rmsd_after\<rparr>))))"
    by (simp add: score_structure_def assms Let_def split: sum.splits prod.splits)
  show ?thesis
    using r g pr pg sr sg sc truncated_ca_lengths [OF assms]
    by (simp add: ca_atoms_def)
qed

text \<open>
  The theorem on a reference with three CA atoms and a prediction with two.
\<close>

theorem truncated_ca_equal_prefixes_witness:
  "truncated_ca [atom_n1, atom_ca1, atom_ca2, atom_ca3] [atom_ca2, atom_n1, atom_ca3]
     = ([atom_ca1, atom_ca2], [atom_ca2, atom_ca3]) \<and>
   ca_atoms [atom_n1, atom_ca1, atom_ca2, atom_ca3] = [atom_ca1, atom_ca2, atom_ca3] \<and>
   prefix [atom_ca1, atom_ca2] (ca_atoms [atom_n1, atom_ca1, atom_ca2, atom_ca3]) \<and>
   prefix [atom_ca2, atom_ca3] (ca_atoms [atom_ca2, atom_n1, atom_ca3]) \<and>
   length [atom_ca2, atom_ca3] = length [atom_ca1, atom_ca2]"
proof -
  have c: "ca_atoms [atom_n1, atom_ca1, atom_ca2, atom_ca3] = [atom_ca1, atom_ca2, atom_ca3]"
    "ca_atoms [atom_ca2, atom_n1, atom_ca3] = [atom_ca2, atom_ca3]"
    by (simp_all add: ca_atoms_def atom_n1_def atom_ca1_def atom_ca2_def atom_ca3_def)
  have t: "truncated_ca [atom_n1, atom_ca1, atom_ca2, atom_ca3] [atom_ca2, atom_n1, atom_ca3]
     = ([atom_ca1, atom_ca2], [atom_ca2, atom_ca3])"
    by (simp add: truncated_ca_def c Let_def)
  show ?thesis
    using truncated_ca_equal_prefixes [OF t, of "\<lambda>fixed mobile. Inl LinAlgError" info_p1] t c
    by blast
qed

text \<open>
  C5 (as amended). When a structure has no atom named CA the scorer checks nothing: both
  truncated selections are empty, \<open>rmsd_before\<close> is nan, and the two empty selections go
  to \<open>struct.superimpose\<close>. The scorer fails only with an exception of a library call;
  when \<open>struct.superimpose\<close> raises, \<open>s\<close> is left as it was, and when it returns
  normally with an empty fitted selection, the transformation is stored in \<open>s\<close> and its
  rmsd is stored as nan.
\<close>

theorem score_structure_empty_ca:
  assumes "ca_atoms ref_structure = [] \<or> ca_atoms gen_structure = []"
  shows "truncated_ca ref_structure gen_structure = ([], []) \<and>
         struct_rmsd [] [] = Inr NaN \<and>
         score_structure superimpose ref_structure gen_structure s =
           (case superimpose [] [] of
              Inl e \<Rightarrow> Inl (e, s)
            | Inr (gen_ca_fit, tr) \<Rightarrow>
                (case struct_rmsd [] gen_ca_fit of
                   Inl e \<Rightarrow> Inl (e, s\<lparr>transform := Some tr\<rparr>)
                 | Inr rmsd_after \<Rightarrow>
                     Inr (NaN, rmsd_after, s\<lparr>transform := Some tr, rmsd := Some rmsd_after\<rparr>))) \<and>
         (\<forall>tr. superimpose [] [] = Inr ([], tr) \<longrightarrow>
            score_structure superimpose ref_structure gen_structure s =
              Inr (NaN, NaN, s\<lparr>transform := Some tr, rmsd := Some NaN\<rparr>))"
  using truncated_ca_empty [OF assms]
  by (simp add: score_structure_def struct_rmsd_empty Let_def split: sum.splits prod.splits)

text \<open>
  The theorem on a prediction without CA atoms, with a \<open>struct.superimpose\<close> that raises:
  the failure is the library's and \<open>s\<close> is unchanged.
\<close>

theorem score_structure_empty_ca_witness:
  "(ca_atoms [atom_n1, atom_ca1] = [] \<or> ca_atoms [atom_n1] = []) \<and>
   truncated_ca [atom_n1, atom_ca1] [atom_n1] = ([], []) \<and>
   score_structure (\<lambda>fixed mobile. Inl LinAlgError) [atom_n1, atom_ca1] [atom_n1] info_p1
     = Inl (LinAlgError, info_p1)"
proof -
  have e: "ca_atoms [atom_n1, atom_ca1] = [] \<or> ca_atoms [atom_n1] = []"
    by (simp add: ca_atoms_def atom_n1_def)
  show ?thesis
    using score_structure_empty_ca [OF e, of "\<lambda>fixed mobile. Inl LinAlgError" info_p1] e
    by simp
qed

text \<open>
  The claim that an empty CA selection is rejected fails. On two empty atom arrays
  biotite's superimpose raises nothing (the centroids are means of empty arrays, the fitted
  array is empty); with such a superimpose the prediction without CA atoms is scored, both
  RMSD values are nan, and the transformation and the nan are stored.
\<close>

theorem empty_ca_scored_without_error:
  "ca_atoms [atom_n1] = [] \<and>
   score_structure (\<lambda>fixed mobile. Inr (mobile, ())) [atom_n1, atom_ca1] [atom_n1] info_p1
     = Inr (NaN, NaN, info_p1\<lparr>transform := Some (), rmsd := Some NaN\<rparr>)"
  by (simp add: score_structure_def truncated_ca_def ca_atoms_def struct_rmsd_def
      np_broadcast_def Let_def atom_n1_def atom_ca1_def)

text \<open>
  C2. When \<open>struct.superimpose\<close> returns what the specification says, an optimal rigid
  transform of the truncated candidate set onto the truncated reference set together with
  the transformed candidate set, the scorer returns both RMSD values, and the RMSD after
  superposition is at most the RMSD before it. The two sets have equal length by the
  truncation; they are not empty (as any non-collinear sets are).
\<close>

theorem rmsd_after_le_rmsd_before:
  assumes "truncated_ca ref_structure gen_structure = (ref_ca, gen_ca)"
    and "ref_ca \<noteq> []"
    and "superimpose ref_ca gen_ca = Inr (gen_ca_fit, t)"
    and "gen_ca_fit = transform_atoms t gen_ca"
    and "minimises_msd ref_ca gen_ca t"
  shows "\<exists>rmsd_before rmsd_after.
           score_structure superimpose ref_structure gen_structure s =
             Inr (Fin rmsd_before, Fin rmsd_after,
                  s\<lparr>transform := Some t, rmsd := Some (Fin rmsd_after)\<rparr>) \<and>
           struct_rmsd ref_ca gen_ca = Inr (Fin rmsd_before) \<and>
           struct_rmsd ref_ca gen_ca_fit = Inr (Fin rmsd_after) \<and>
           rmsd_after \<le> rmsd_before"
proof -
  have len: "length gen_ca = length ref_ca"
    using truncated_ca_lengths [OF assms(1)] by simp
  have b: "struct_rmsd ref_ca gen_ca = Inr (Fin (sqrt (mean_sq_distance ref_ca gen_ca)))"
    using len assms(2) by (simp add: struct_rmsd_equal_length)
  have a: "struct_rmsd ref_ca gen_ca_fit
             = Inr (Fin (sqrt (mean_sq_distance ref_ca gen_ca_fit)))"
    using len assms(2,4) by (simp add: struct_rmsd_equal_length)
  have "mean_sq_distance ref_ca gen_ca_fit \<le> mean_sq_distance ref_ca gen_ca"
    using minimises_msd_le_untransformed [OF assms(5)] assms(4) by simp
  then have le: "sqrt (mean_sq_distance ref_ca gen_ca_fit) \<le> sqrt (mean_sq_distance ref_ca gen_ca)"
    by simp
  have "score_structure superimpose ref_structure gen_structure s =
      Inr (Fin (sqrt (mean_sq_distance ref_ca gen_ca)),
           Fin (sqrt (mean_sq_distance ref_ca gen_ca_fit)),
           s\<lparr>transform := Some t, rmsd := Some (Fin (sqrt (mean_sq_distance ref_ca gen_ca_fit)))\<rparr>)"
    by (simp add: score_structure_def assms(1,3) a b Let_def)
  with a b le show ?thesis by blast
qed

text \<open>
  The theorem on a triangle of CA atoms and its copy moved by 2 along the third axis:
  the optimal transform moves it back, the RMSD is 2 before and 0 after.
\<close>

theorem rmsd_after_le_rmsd_before_witness:
  "truncated_ca tri_ref tri_gen = (tri_ref, tri_gen) \<and> tri_ref \<noteq> [] \<and>
   minimises_msd tri_ref tri_gen shift_down \<and>
   score_structure (\<lambda>fixed mobile. Inr (transform_atoms shift_down mobile, shift_down))
       tri_ref tri_gen info_q1
     = Inr (Fin 2, Fin 0, info_q1\<lparr>transform := Some shift_down, rmsd := Some (Fin 0)\<rparr>) \<and>
   (0::real) \<le> 2"
proof -
  have ne: "tri_ref \<noteq> []" by (simp add: tri_ref_def)
  let ?sup = "\<lambda>fixed mobile :: atom list.
      (Inr (transform_atoms shift_down mobile, shift_down) :: error + atom list \<times> rigid_transform)"
  have call: "?sup tri_ref tri_gen = Inr (tri_ref, shift_down)"
    by (simp add: transform_tri_gen)
  have fit: "tri_ref = transform_atoms shift_down tri_gen"
    by (simp add: transform_tri_gen)
  have "\<exists>b a. score_structure ?sup tri_ref tri_gen info_q1
           = Inr (Fin b, Fin a, info_q1\<lparr>transform := Some shift_down, rmsd := Some (Fin a)\<rparr>) \<and>
         struct_rmsd tri_ref tri_gen = Inr (Fin b) \<and>
         struct_rmsd tri_ref tri_ref = Inr (Fin a) \<and> a \<le> b"
    by (rule rmsd_after_le_rmsd_before
        [where superimpose = ?sup and s = info_q1 and gen_ca_fit = tri_ref and t = shift_down,
         OF truncated_tri ne call fit minimises_shift_down])
  then obtain b a where
    sc: "score_structure ?sup tri_ref tri_gen info_q1
         = Inr (Fin b, Fin a, info_q1\<lparr>transform := Some shift_down, rmsd := Some (Fin a)\<rparr>)"
    and rb: "struct_rmsd tri_ref tri_gen = Inr (Fin b)"
    and ra: "struct_rmsd tri_ref tri_ref = Inr (Fin a)"
    and le: "a \<le> b"
    by blast
  from rb ra have "b = 2" "a = 0" by (simp_all add: rmsd_tri)
  with sc le show ?thesis
    using truncated_tri ne minimises_shift_down by simp
qed

section \<open>Top-K selection\<close>

text \<open>
  C6 (as amended). For every list of N candidates with N at least 1 and every k,
  selection sorts the rows in ascending order of the score and returns exactly the first
  k rows of that order, a sorted list of min k N rows, without error; when k is at least
  N these are all N rows in ascending order. For rows that all carry a score the order is
  the ascending order of the real scores. For the empty list of candidates the selection
  raises KeyError: the frame built from no rows has no column to index or sort by.
\<close>

theorem select_top_k_ascending_prefix:
  "(select_top_k k by rows = Inl KeyError \<longleftrightarrow> rows = []) \<and>
   (rows \<noteq> [] \<longrightarrow>
      select_top_k k by rows = Inr (take k (sort_values by rows)) \<and>
      mset (sort_values by rows) = mset rows \<and>
      sorted_wrt (\<lambda>a b. key_le (by a) (by b)) (sort_values by rows) \<and>
      sorted_wrt (\<lambda>a b. key_le (by a) (by b)) (take k (sort_values by rows)) \<and>
      length (take k (sort_values by rows)) = min k (length rows) \<and>
      (length rows \<le> k \<longrightarrow>
         select_top_k k by rows = Inr (sort_values by rows) \<and>
         mset (take k (sort_values by rows)) = mset rows) \<and>
      ((\<forall>r \<in> set rows. \<not> isna (by r)) \<longrightarrow>
         sorted (map (\<lambda>r. key_val (by r)) (take k (sort_values by rows)))))"
proof (intro conjI impI)
  show "select_top_k k by rows = Inl KeyError \<longleftrightarrow> rows = []"
    by (simp add: select_top_k_def indexed_frame_def)
next
  assume "rows \<noteq> []"
  then show "select_top_k k by rows = Inr (take k (sort_values by rows))"
    by (simp add: select_top_k_def indexed_frame_def head_def)
next
  show "mset (sort_values by rows) = mset rows" by (rule mset_sort_values)
next
  show "sorted_wrt (\<lambda>a b. key_le (by a) (by b)) (sort_values by rows)"
    by (rule sorted_wrt_sort_values)
next
  show "sorted_wrt (\<lambda>a b. key_le (by a) (by b)) (take k (sort_values by rows))"
    using top_k_sorted_prefix [of k "by" rows] by simp
next
  show "length (take k (sort_values by rows)) = min k (length rows)"
    using top_k_sorted_prefix [of k "by" rows] by simp
next
  assume "rows \<noteq> []" "length rows \<le> k"
  then show "select_top_k k by rows = Inr (sort_values by rows)"
    by (simp add: select_top_k_def indexed_frame_def head_def length_sort_values)
next
  assume "length rows \<le> k"
  then show "mset (take k (sort_values by rows)) = mset rows"
    by (simp add: length_sort_values mset_sort_values)
next
  assume "\<forall>r \<in> set rows. \<not> isna (by r)"
  then show "sorted (map (\<lambda>r. key_val (by r)) (take k (sort_values by rows)))"
    by (rule sorted_scored_prefix)
qed

text \<open>
  The theorem on three rows scored 0.3, 0.1 and 0.2, for k = 5 and k = 2.
\<close>

theorem select_top_k_ascending_prefix_witness:
  "[row_a, row_b, row_c] \<noteq> [] \<and> length [row_a, row_b, row_c] \<le> 5 \<and>
   \<not> isna (distance row_a) \<and> \<not> isna (distance row_b) \<and> \<not> isna (distance row_c) \<and>
   select_top_k 5 distance [row_a, row_b, row_c] = Inr [row_b, row_c, row_a] \<and>
   sorted (map (\<lambda>r. key_val (distance r)) [row_b, row_c, row_a]) \<and>
   select_top_k 2 distance [row_a, row_b, row_c] = Inr [row_b, row_c]"
proof -
  have ne: "[row_a, row_b, row_c] \<noteq> []" and l: "length [row_a, row_b, row_c] \<le> 5"
    by simp_all
  have n: "\<forall>r \<in> set [row_a, row_b, row_c]. \<not> isna (distance r)"
    by (simp add: isna_rows)
  have t5: "select_top_k 5 distance [row_a, row_b, row_c]
              = Inr (sort_values distance [row_a, row_b, row_c])"
    using select_top_k_ascending_prefix [of 5 distance "[row_a, row_b, row_c]"] ne l by blast
  have s5: "sorted (map (\<lambda>r. key_val (distance r))
              (take 5 (sort_values distance [row_a, row_b, row_c])))"
    using select_top_k_ascending_prefix [of 5 distance "[row_a, row_b, row_c]"] ne n by blast
  have t2: "select_top_k 2 distance [row_a, row_b, row_c]
              = Inr (take 2 (sort_values distance [row_a, row_b, row_c]))"
    using select_top_k_ascending_prefix [of 2 distance "[row_a, row_b, row_c]"] ne by blast
  have s: "sorted (map (\<lambda>r. key_val (distance r)) [row_b, row_c, row_a])"
    using s5 by (simp add: sort_values_rows)
  show ?thesis
    using t5 t2 s by (simp add: sort_values_rows isna_rows)
qed

text \<open>
  The claim that selection never fails, for every N, fails at N = 0.
\<close>

theorem empty_candidate_list_raises:
  "select_top_k 5 distance ([] :: gen_sequence list) = Inl KeyError"
  by (simp add: select_top_k_def indexed_frame_def)

text \<open>
  C8 (as amended). Selection neither excludes rows without a score nor fails: the
  unscored rows it returns are the first of the unscored rows, in input order, as many as
  the scored rows leave free among the first k. In particular every unscored row is
  returned when k is at least the number of rows. In the result no unscored row precedes
  a scored one.
\<close>

theorem top_k_keeps_unscored:
  "filter (\<lambda>r. isna (by r)) (top_k k by frame) =
     take (k - length (filter (\<lambda>r. \<not> isna (by r)) frame)) (filter (\<lambda>r. isna (by r)) frame) \<and>
   (r \<in> set frame \<and> isna (by r) \<and> length frame \<le> k \<longrightarrow> r \<in> set (top_k k by frame)) \<and>
   (\<forall>i j. i < j \<and> j < length (top_k k by frame) \<and> isna (by (top_k k by frame ! i)) \<longrightarrow>
      isna (by (top_k k by frame ! j)))"
proof (intro conjI impI allI)
  show "filter (\<lambda>r. isna (by r)) (top_k k by frame) =
     take (k - length (filter (\<lambda>r. \<not> isna (by r)) frame)) (filter (\<lambda>r. isna (by r)) frame)"
    by (rule filter_isna_top_k)
next
  assume a: "r \<in> set frame \<and> isna (by r) \<and> length frame \<le> k"
  then have "top_k k by frame = sort_values by frame"
    by (simp add: top_k_def head_def length_sort_values)
  moreover have "set (sort_values by frame) = set frame"
    using mset_sort_values [of "by" frame] by (metis set_mset_mset)
  ultimately show "r \<in> set (top_k k by frame)" using a by simp
next
  fix i j
  assume a: "i < j \<and> j < length (top_k k by frame) \<and> isna (by (top_k k by frame ! i))"
  have "sorted_wrt (\<lambda>a b. key_le (by a) (by b)) (top_k k by frame)"
    by (simp add: top_k_def head_def sorted_wrt_take sorted_wrt_sort_values)
  with a have "key_le (by (top_k k by frame ! i)) (by (top_k k by frame ! j))"
    by (simp add: sorted_wrt_iff_nth_less)
  with a show "isna (by (top_k k by frame ! j))"
    by (cases "(by (top_k k by frame ! i), by (top_k k by frame ! j))" rule: key_le.cases)
       simp_all
qed

text \<open>
  The theorem on one unscored and one scored row, with k = 5.
\<close>

theorem top_k_keeps_unscored_witness:
  "row_unscored \<in> set [row_unscored, row_b] \<and> isna (distance row_unscored) \<and>
   length [row_unscored, row_b] \<le> 5 \<and>
   row_unscored \<in> set (top_k 5 distance [row_unscored, row_b])"
proof -
  have h: "row_unscored \<in> set [row_unscored, row_b] \<and> isna (distance row_unscored) \<and>
      length [row_unscored, row_b] \<le> 5"
    by (simp add: isna_rows)
  then show ?thesis
    using top_k_keeps_unscored [of distance 5 "[row_unscored, row_b]" row_unscored] by blast
qed

text \<open>
  The claim that an unscored candidate never appears in the selection fails: of these two
  rows the first has no distance, and it is the second of the five top rows.
\<close>

theorem unscored_candidate_selected:
  "isna (distance row_unscored) \<and>
   top_k 5 distance [row_unscored, row_b] = [row_b, row_unscored]"
  by (simp add: top_k_def head_def sort_values_rows isna_rows)

section \<open>Short sequences\<close>

text \<open>
  C9. For an embedding whose sequence axis has length at most 2 the slice \<open>1:-1\<close> is
  empty, every entry of the pooled vector is nan, and the scorer returns nan, which is no
  real number in [0, 2]; it raises nothing. The other embedding is any well-shaped one of
  the same batch and hidden dimensions, in either argument position.
\<close>

theorem cosine_distance_short_sequence:
  assumes "wf_ndarray3 e1" "wf_ndarray3 e2" "dim1 e1 \<le> 2"
    "dim0 e2 = dim0 e1" "dim2 e2 = dim2 e1"
  shows "map (py_slice 1 (- 1)) (elems e1) = replicate (dim0 e1) [] \<and>
         pooled e1 = replicate (dim0 e1 * dim2 e1) NaN \<and>
         cosine_distance e1 e2 True = Inr NaN \<and>
         cosine_distance e2 e1 True = Inr NaN"
proof -
  have len1: "length (elems e1) = dim0 e1" and len2: "length (elems e2) = dim0 e1"
    using assms(1,2,4) by (simp_all add: wf_ndarray3_def)
  have "py_slice 1 (- 1) m = []" if "m \<in> set (elems e1)" for m
  proof -
    from that assms(1) have "length m = dim1 e1" by (simp add: wf_ndarray3_def)
    with assms(3) have "length (butlast (tl m)) = 0" by simp
    then show ?thesis by (simp only: py_slice_1_m1 length_0_conv)
  qed
  then have "map (py_slice 1 (- 1)) (elems e1) = map (\<lambda>m. []) (elems e1)"
    by (simp cong: map_cong)
  then have slice: "map (py_slice 1 (- 1)) (elems e1) = replicate (dim0 e1) []"
    by (simp add: map_replicate_const len1)
  have p: "pooled e1 = replicate (dim0 e1 * dim2 e1) NaN"
    using pooled_short [OF assms(3)] len1 by simp
  have l: "length (pooled e2) = dim0 e1 * dim2 e1"
    using len2 assms(5) by (simp add: length_pooled)
  show ?thesis
    using slice p distance_cosine_all_NaN [OF l]
    by (simp add: cosine_distance_def)
qed

text \<open>
  The theorem on an embedding of shape (1, 2, 2) against one of shape (1, 4, 2).
\<close>

theorem cosine_distance_short_sequence_witness:
  "wf_ndarray3 emb_2x2 \<and> wf_ndarray3 emb_4x2 \<and> dim1 emb_2x2 \<le> 2 \<and>
   dim0 emb_4x2 = dim0 emb_2x2 \<and> dim2 emb_4x2 = dim2 emb_2x2 \<and>
   pooled emb_2x2 = [NaN, NaN] \<and>
   cosine_distance emb_2x2 emb_4x2 True = Inr NaN"
proof -
  have h: "dim1 emb_2x2 \<le> 2" "dim0 emb_4x2 = dim0 emb_2x2" "dim2 emb_4x2 = dim2 emb_2x2"
    by (simp_all add: emb_2x2_def emb_4x2_def)
  have r: "replicate (dim0 emb_2x2 * dim2 emb_2x2) NaN = [NaN, NaN]"
    by (simp add: emb_2x2_def numeral_2_eq_2)
  show ?thesis
    using cosine_distance_short_sequence [OF wf_examples(4,2) h] h wf_examples(4,2)
    by (simp only: r)
qed

section \<open>The persisted records\<close>

text \<open>
  C10. Every record built from the selected rows has the candidate's identifier and
  residue sequence unchanged, and as its description the candidate's description followed
  by \<open>,distance=\<close> and the printed score in lab 2, by \<open>,rmsd=\<close> and the printed score
  in lab 3. The lists of candidates, \<open>gen_sequences\<close> and \<open>structures\<close>, are the same
  after the two cells as before.
\<close>

theorem top_records_preserve_candidates:
  "records (cell_3_3 fmt (cell_3_2 st))
     = map (distance_record fmt) (top_k 5 distance (gen_sequences st)) \<and>
   gen_sequences (cell_3_3 fmt (cell_3_2 st)) = gen_sequences st \<and>
   (\<forall>r \<in> set (records (cell_3_3 fmt (cell_3_2 st))).
      \<exists>c \<in> set (gen_sequences st).
        seq_id r = prompt_id c \<and> seq r = sequence c \<and>
        seq_description r = description c @ '',distance='' @ fmt (distance c)) \<and>
   records3 (cell_4_5 fmt (cell_4_4 st3))
     = map (rmsd_record fmt) (top_k 3 rmsd (structures st3)) \<and>
   structures (cell_4_5 fmt (cell_4_4 st3)) = structures st3 \<and>
   (\<forall>r \<in> set (records3 (cell_4_5 fmt (cell_4_4 st3))).
      \<exists>c \<in> set (structures st3).
        seq_id r = prompt_id c \<and> seq r = sequence c \<and>
        seq_description r = description c @ '',rmsd='' @ fmt (rmsd c))"
proof -
  have sub2: "set (top_k 5 distance (gen_sequences st)) \<subseteq> set (gen_sequences st)"
    using mset_sort_values [of distance "gen_sequences st"]
    by (metis top_k_def head_def set_take_subset set_mset_mset)
  have sub3: "set (top_k 3 rmsd (structures st3)) \<subseteq> set (structures st3)"
    using mset_sort_values [of rmsd "structures st3"]
    by (metis top_k_def head_def set_take_subset set_mset_mset)
  have r2: "records (cell_3_3 fmt (cell_3_2 st))
     = map (distance_record fmt) (top_k 5 distance (gen_sequences st))"
    by (simp add: cell_3_3_def cell_3_2_def top_k_def)
  have r3: "records3 (cell_4_5 fmt (cell_4_4 st3))
     = map (rmsd_record fmt) (top_k 3 rmsd (structures st3))"
    by (simp add: cell_4_5_def cell_4_4_def top_k_def)
  have g2: "gen_sequences (cell_3_3 fmt (cell_3_2 st)) = gen_sequences st"
    by (simp add: cell_3_3_def cell_3_2_def)
  have g3: "structures (cell_4_5 fmt (cell_4_4 st3)) = structures st3"
    by (simp add: cell_4_5_def cell_4_4_def)
  have a2: "\<forall>r \<in> set (map (distance_record fmt) (top_k 5 distance (gen_sequences st))).
      \<exists>c \<in> set (gen_sequences st).
        seq_id r = prompt_id c \<and> seq r = sequence c \<and>
        seq_description r = description c @ '',distance='' @ fmt (distance c)"
    using sub2 by (auto simp: distance_record_def)
  have a3: "\<forall>r \<in> set (map (rmsd_record fmt) (top_k 3 rmsd (structures st3))).
      \<exists>c \<in> set (structures st3).
        seq_id r = prompt_id c \<and> seq r = sequence c \<and>
        seq_description r = description c @ '',rmsd='' @ fmt (rmsd c)"
    using sub3 by (auto simp: rmsd_record_def)
  show ?thesis
    using r2 r3 g2 g3 a2 a3 by simp
qed

text \<open>
  The theorem on two scored rows.
\<close>

theorem top_records_preserve_candidates_witness:
  "records (cell_3_3 fmt_ab (cell_3_2 \<lparr>gen_sequences = [row_a, row_b], df = [], records = []\<rparr>))
     = [\<lparr>seq = ''MKL'', seq_id = ''b'', seq_description = ''b y,distance=0.1''\<rparr>,
        \<lparr>seq = ''MKV'', seq_id = ''a'', seq_description = ''a x,distance=0.3''\<rparr>] \<and>
   gen_sequences (cell_3_3 fmt_ab (cell_3_2 \<lparr>gen_sequences = [row_a, row_b], df = [], records = []\<rparr>))
     = [row_a, row_b]"
proof -
  let ?st = "\<lparr>gen_sequences = [row_a, row_b], df = [], records = []\<rparr>"
  have t: "top_k 5 distance [row_a, row_b] = [row_b, row_a]"
    by (simp add: top_k_def head_def sort_values_rows)
  have m: "distance_record fmt_ab row_b
             = \<lparr>seq = ''MKL'', seq_id = ''b'', seq_description = ''b y,distance=0.1''\<rparr>"
    "distance_record fmt_ab row_a
       = \<lparr>seq = ''MKV'', seq_id = ''a'', seq_description = ''a x,distance=0.3''\<rparr>"
    by (simp_all add: distance_record_def fmt_ab_def row_a_def row_b_def)
  have "records (cell_3_3 fmt_ab (cell_3_2 ?st))
          = map (distance_record fmt_ab) (top_k 5 distance (gen_sequences ?st))"
    and "gen_sequences (cell_3_3 fmt_ab (cell_3_2 ?st)) = gen_sequences ?st"
    using top_records_preserve_candidates [of fmt_ab ?st] by blast+
  then show ?thesis
    by (simp add: t m)
qed

end
